theory Spec2Isabelle
  imports Complex_Main
begin

chapter \<open>The invoice generator: its model\<close>

section \<open>Data model (types.ts)\<close>

text \<open>
  The interfaces of \<^verbatim>\<open>types.ts\<close> as records. A finite JavaScript number is modelled as
  an exact \<^typ>\<open>real\<close>: the rounding of the binary64 operations is not modelled. Item ids are
  integers (the initial id \<open>1\<close>, afterwards millisecond timestamps). \<^verbatim>\<open>Client\<close> has the shape of
  \<^verbatim>\<open>Business\<close> and TypeScript types are structural, so one record serves both. The field
  \<^verbatim>\<open>id\<close> of an item is called \<open>item_id\<close> and the field \<^verbatim>\<open>name\<close> of the bank details
  \<open>holderName\<close>, since \<open>id\<close> and \<open>name\<close> are taken; the field \<^verbatim>\<open>notes\<close> of an invoice is
  \<open>notesText\<close>, \<open>notes\<close> being a keyword.
\<close>

record Business =
  name :: string
  address :: string
  email :: string

type_synonym Client = Business

record Item =
  item_id :: int
  description :: string
  quantity :: real
  price :: real
  hsn :: string

record BankDetails =
  holderName :: string
  accountNumber :: string
  bankName :: string
  ifscCode :: string
  upiId :: "string option"

datatype InvoiceType = Invoice_T | Tax_Invoice_T | Quotation_T | Proforma_Invoice_T | Estimate_T

datatype Currency = INR | USD | EUR | GBP

record Invoice =
  logo :: "string option"
  invoiceType :: InvoiceType
  invoiceNumber :: string
  date :: string
  dueDate :: string
  business :: Business
  client :: Client
  items :: "Item list"
  cgstRate :: real
  sgstRate :: real
  igstRate :: real
  taxRate :: real
  discountRate :: real
  currency :: Currency
  bankDetails :: BankDetails
  notesText :: string
  themeColor :: string

definition DEFAULT_THEME_COLOR :: string where
  "DEFAULT_THEME_COLOR = ''#10B981''"

definition getInitialInvoiceState :: Invoice where
  "getInitialInvoiceState =
     \<lparr> logo = None,
       invoiceType = Invoice_T,
       invoiceNumber = '''',
       date = '''',
       dueDate = '''',
       business = \<lparr> name = '''', address = '''', email = '''' \<rparr>,
       client = \<lparr> name = '''', address = '''', email = '''' \<rparr>,
       items = [\<lparr> item_id = 1, description = '''', quantity = 0, price = 0, hsn = '''' \<rparr>],
       cgstRate = 0,
       sgstRate = 0,
       igstRate = 0,
       taxRate = 0,
       discountRate = 0,
       currency = INR,
       bankDetails = \<lparr> holderName = '''', accountNumber = '''', bankName = '''',
                       ifscCode = '''', upiId = Some '''' \<rparr>,
       notesText = '''',
       themeColor = DEFAULT_THEME_COLOR \<rparr>"

section \<open>JavaScript numbers and strings\<close>

text \<open>
  Where a function can meet \<^verbatim>\<open>NaN\<close> or an infinity (the argument of \<^verbatim>\<open>toWords\<close>, the
  result of \<^verbatim>\<open>parseInt\<close>, the percentage of \<^verbatim>\<open>darkenColor\<close>), a number is a value of
  \<open>number\<close>, and the operators follow IEEE 754 on the special values. The sign of zero
  is not modelled.
\<close>

datatype number = Num real | NaN | PosInfinity | NegInfinity

fun js_neg :: "number \<Rightarrow> number" where
  "js_neg (Num a) = Num (- a)"
| "js_neg NaN = NaN"
| "js_neg PosInfinity = NegInfinity"
| "js_neg NegInfinity = PosInfinity"

fun js_add :: "number \<Rightarrow> number \<Rightarrow> number" where
  "js_add (Num a) (Num b) = Num (a + b)"
| "js_add NaN y = NaN"
| "js_add x NaN = NaN"
| "js_add PosInfinity NegInfinity = NaN"
| "js_add NegInfinity PosInfinity = NaN"
| "js_add PosInfinity y = PosInfinity"
| "js_add x PosInfinity = PosInfinity"
| "js_add NegInfinity y = NegInfinity"
| "js_add x NegInfinity = NegInfinity"

definition js_sub :: "number \<Rightarrow> number \<Rightarrow> number" where
  "js_sub x y = js_add x (js_neg y)"

definition signed_infinity :: "bool \<Rightarrow> number" where
  "signed_infinity positive = (if positive then PosInfinity else NegInfinity)"

fun js_mul :: "number \<Rightarrow> number \<Rightarrow> number" where
  "js_mul (Num a) (Num b) = Num (a * b)"
| "js_mul NaN y = NaN"
| "js_mul x NaN = NaN"
| "js_mul (Num a) PosInfinity = (if a = 0 then NaN else signed_infinity (a > 0))"
| "js_mul (Num a) NegInfinity = (if a = 0 then NaN else signed_infinity (a < 0))"
| "js_mul PosInfinity (Num b) = (if b = 0 then NaN else signed_infinity (b > 0))"
| "js_mul NegInfinity (Num b) = (if b = 0 then NaN else signed_infinity (b < 0))"
| "js_mul PosInfinity PosInfinity = PosInfinity"
| "js_mul NegInfinity NegInfinity = PosInfinity"
| "js_mul PosInfinity NegInfinity = NegInfinity"
| "js_mul NegInfinity PosInfinity = NegInfinity"

fun js_div :: "number \<Rightarrow> number \<Rightarrow> number" where
  "js_div (Num a) (Num b) =
     (if b \<noteq> 0 then Num (a / b) else if a = 0 then NaN else signed_infinity (a > 0))"
| "js_div NaN y = NaN"
| "js_div x NaN = NaN"
| "js_div (Num a) PosInfinity = Num 0"
| "js_div (Num a) NegInfinity = Num 0"
| "js_div PosInfinity (Num b) = signed_infinity (b \<ge> 0)"
| "js_div NegInfinity (Num b) = signed_infinity (b < 0)"
| "js_div x y = NaN"

text \<open>The comparison \<^verbatim>\<open>x >= y\<close>: false as soon as one side is \<^verbatim>\<open>NaN\<close>.\<close>

fun js_ge :: "number \<Rightarrow> number \<Rightarrow> bool" where
  "js_ge (Num a) (Num b) = (a \<ge> b)"
| "js_ge NaN y = False"
| "js_ge x NaN = False"
| "js_ge PosInfinity y = True"
| "js_ge x NegInfinity = True"
| "js_ge x y = False"

fun Math_floor :: "number \<Rightarrow> number" where
  "Math_floor (Num a) = Num (of_int \<lfloor>a\<rfloor>)"
| "Math_floor x = x"

definition Math_max :: "number \<Rightarrow> number \<Rightarrow> number" where
  "Math_max x y = (if x = NaN \<or> y = NaN then NaN else if js_ge x y then x else y)"

text \<open>
  Strings are lists of characters. \<^verbatim>\<open>trim\<close> removes white space at both ends;
  \<^verbatim>\<open>substring(a, b)\<close> is used with \<open>a \<le> b\<close> only; \<^verbatim>\<open>replace(p, r)\<close> with a string pattern
  replaces the first occurrence only (the patterns of the source are single characters);
  \<^verbatim>\<open>toUpperCase\<close> and \<^verbatim>\<open>toLowerCase\<close> are given on the ASCII letters, the only letters the
  source applies them to.
\<close>

definition isWhiteSpace :: "char \<Rightarrow> bool" where
  "isWhiteSpace c \<longleftrightarrow>
     c \<in> set [CHR 0x09, CHR 0x0A, CHR 0x0B, CHR 0x0C, CHR 0x0D, CHR '' '', CHR 0xA0]"

definition trim :: "string \<Rightarrow> string" where
  "trim s = rev (dropWhile isWhiteSpace (rev (dropWhile isWhiteSpace s)))"

definition substring :: "string \<Rightarrow> nat \<Rightarrow> nat \<Rightarrow> string" where
  "substring s a b = take (b - a) (drop a s)"

fun replaceFirst :: "char \<Rightarrow> string \<Rightarrow> string \<Rightarrow> string" where
  "replaceFirst p r [] = []"
| "replaceFirst p r (c # cs) = (if c = p then r @ cs else c # replaceFirst p r cs)"

definition padStart :: "nat \<Rightarrow> char \<Rightarrow> string \<Rightarrow> string" where
  "padStart n c s = replicate (n - length s) c @ s"

definition toUpperCase :: "char \<Rightarrow> char" where
  "toUpperCase c =
     (case map_of (zip ''abcdefghijklmnopqrstuvwxyz'' ''ABCDEFGHIJKLMNOPQRSTUVWXYZ'') c of
        Some u \<Rightarrow> u
      | None \<Rightarrow> c)"

definition toLowerCase :: "char \<Rightarrow> char" where
  "toLowerCase c =
     (case map_of (zip ''ABCDEFGHIJKLMNOPQRSTUVWXYZ'' ''abcdefghijklmnopqrstuvwxyz'') c of
        Some l \<Rightarrow> l
      | None \<Rightarrow> c)"

text \<open>\<^verbatim>\<open>Array.prototype.join\<close>.\<close>

fun join :: "string \<Rightarrow> string list \<Rightarrow> string" where
  "join sep [] = ''''"
| "join sep [w] = w"
| "join sep (w # v # ws) = w @ sep @ join sep (v # ws)"

text \<open>
  \<^verbatim>\<open>parseInt(s, 16)\<close>: leading white space is skipped, then an optional sign, then an
  optional \<^verbatim>\<open>0x\<close>, and the longest run of hexadecimal digits is read; without a digit the
  result is \<^verbatim>\<open>NaN\<close>.
\<close>

definition hexDigits :: "(char \<times> nat) list" where
  "hexDigits =
     [(CHR ''0'', 0), (CHR ''1'', 1), (CHR ''2'', 2), (CHR ''3'', 3), (CHR ''4'', 4),
      (CHR ''5'', 5), (CHR ''6'', 6), (CHR ''7'', 7), (CHR ''8'', 8), (CHR ''9'', 9),
      (CHR ''a'', 10), (CHR ''b'', 11), (CHR ''c'', 12), (CHR ''d'', 13), (CHR ''e'', 14),
      (CHR ''f'', 15), (CHR ''A'', 10), (CHR ''B'', 11), (CHR ''C'', 12), (CHR ''D'', 13),
      (CHR ''E'', 14), (CHR ''F'', 15)]"

definition isHexDigit :: "char \<Rightarrow> bool" where
  "isHexDigit c \<longleftrightarrow> map_of hexDigits c \<noteq> None"

definition hexDigitValue :: "char \<Rightarrow> nat" where
  "hexDigitValue c = (case map_of hexDigits c of Some v \<Rightarrow> v | None \<Rightarrow> 0)"

definition hexValue :: "string \<Rightarrow> nat" where
  "hexValue Z = foldl (\<lambda>acc c. 16 * acc + hexDigitValue c) 0 Z"

definition parseInt16 :: "string \<Rightarrow> number" where
  "parseInt16 inputString =
     (let S = dropWhile isWhiteSpace inputString;
          sign = (if S \<noteq> [] \<and> hd S = CHR ''-'' then - 1 else 1 :: real);
          S = (if S \<noteq> [] \<and> (hd S = CHR ''+'' \<or> hd S = CHR ''-'') then tl S else S);
          S = (if take 2 S = ''0x'' \<or> take 2 S = ''0X'' then drop 2 S else S);
          Z = takeWhile isHexDigit S
      in if Z = [] then NaN else Num (sign * of_nat (hexValue Z)))"

text \<open>
  \<^verbatim>\<open>toString(16)\<close>, on the values that reach it in \<^verbatim>\<open>darkenColor\<close>: \<^verbatim>\<open>NaN\<close>, an infinity or
  an integer.
\<close>

definition lowerHexDigit :: "nat \<Rightarrow> char" where
  "lowerHexDigit d = ''0123456789abcdef'' ! d"

fun natToString16 :: "nat \<Rightarrow> string" where
  "natToString16 n =
     (if n < 16 then [lowerHexDigit n]
      else natToString16 (n div 16) @ [lowerHexDigit (n mod 16)])"

declare natToString16.simps [simp del]

fun toString16 :: "number \<Rightarrow> string" where
  "toString16 NaN = ''NaN''"
| "toString16 PosInfinity = ''Infinity''"
| "toString16 NegInfinity = ''-Infinity''"
| "toString16 (Num a) =
     (if a < 0 then ''-'' @ natToString16 (nat \<lfloor>- a\<rfloor>) else natToString16 (nat \<lfloor>a\<rfloor>))"

section \<open>The calculation engine\<close>

record Totals =
  subtotal :: real
  discountAmount :: real
  taxAmount :: real
  total :: real
  cgstAmount :: real
  sgstAmount :: real
  igstAmount :: real
  genericTaxAmount :: real

text \<open>
  The body of the \<^verbatim>\<open>useMemo\<close> callback \<^verbatim>\<open>calculations\<close>: \<^verbatim>\<open>reduce\<close> is a left fold from
  \<open>0\<close>, and every later line is one \<open>let\<close>.
\<close>

definition calculations :: "Invoice \<Rightarrow> Totals" where
  "calculations invoice =
     (let subtotal' = foldl (\<lambda>acc item. acc + quantity item * price item) 0 (items invoice);
          discountAmount' = subtotal' * (discountRate invoice / 100);
          taxableAmount' = subtotal' - discountAmount';
          cgstAmount' = taxableAmount' * (cgstRate invoice / 100);
          sgstAmount' = taxableAmount' * (sgstRate invoice / 100);
          igstAmount' = taxableAmount' * (igstRate invoice / 100);
          genericTaxAmount' = taxableAmount' * (taxRate invoice / 100);
          taxAmount' = cgstAmount' + sgstAmount' + igstAmount' + genericTaxAmount';
          total' = taxableAmount' + taxAmount'
      in \<lparr> subtotal = subtotal', discountAmount = discountAmount', taxAmount = taxAmount',
           total = total', cgstAmount = cgstAmount', sgstAmount = sgstAmount',
           igstAmount = igstAmount', genericTaxAmount = genericTaxAmount' \<rparr>)"

section \<open>Amounts in words\<close>

text \<open>
  The arrays \<^verbatim>\<open>ones\<close> and \<^verbatim>\<open>tens\<close> of \<^verbatim>\<open>toWords\<close>. An index past the end of a JavaScript
  array reads \<^verbatim>\<open>undefined\<close>, which a string concatenation prints as \<^verbatim>\<open>undefined\<close>.
\<close>

definition ones :: "string list" where
  "ones = ['''', ''one'', ''two'', ''three'', ''four'', ''five'', ''six'', ''seven'', ''eight'',
           ''nine'', ''ten'', ''eleven'', ''twelve'', ''thirteen'', ''fourteen'', ''fifteen'',
           ''sixteen'', ''seventeen'', ''eighteen'', ''nineteen'']"

definition tens :: "string list" where
  "tens = ['''', '''', ''twenty'', ''thirty'', ''forty'', ''fifty'', ''sixty'', ''seventy'',
           ''eighty'', ''ninety'']"

definition word_at :: "string list \<Rightarrow> nat \<Rightarrow> string" where
  "word_at xs i = (if i < length xs then xs ! i else ''undefined'')"

text \<open>
  \<^verbatim>\<open>convertLessThanOneThousand\<close>. Every call passes a positive integer, so the argument
  is a natural number; the two assignments to \<^verbatim>\<open>n\<close> and \<^verbatim>\<open>currentWords\<close> of the first
  \<^verbatim>\<open>if\<close> are the pair bound first.
\<close>

definition convertLessThanOneThousand :: "nat \<Rightarrow> string" where
  "convertLessThanOneThousand n0 =
     (let (currentWords, n) =
            (if n0 \<ge> 100
             then (let currentWords = word_at ones (n0 div 100) @ '' hundred'';
                       n = n0 mod 100
                   in (if n > 0 then currentWords @ '' and '' else currentWords, n))
             else ('''', n0))
      in if n > 0
         then (if n < 20
               then currentWords @ word_at ones n
               else (let currentWords = currentWords @ word_at tens (n div 10)
                     in if n mod 10 > 0
                        then currentWords @ '' '' @ word_at ones (n mod 10)
                        else currentWords))
         else currentWords)"

text \<open>\<^verbatim>\<open>s.charAt(0).toUpperCase() + s.slice(1)\<close>.\<close>

definition upperFirst :: "string \<Rightarrow> string" where
  "upperFirst s = (case s of [] \<Rightarrow> [] | c # cs \<Rightarrow> toUpperCase c # cs)"

text \<open>
  The block of \<^verbatim>\<open>toWords\<close> that fills \<^verbatim>\<open>rupeesInWords\<close> from \<^verbatim>\<open>numberPart\<close>: each
  \<^verbatim>\<open>if\<close> that pushes a group and reduces \<^verbatim>\<open>tempNum\<close> rebinds the pair.
\<close>

definition rupeesInWords_of :: "nat \<Rightarrow> string" where
  "rupeesInWords_of numberPart =
     (if numberPart > 0
      then (let wordsArray = [];
                tempNum = numberPart;
                crore = tempNum div 10000000;
                (wordsArray, tempNum) =
                  (if crore > 0
                   then (wordsArray @ [convertLessThanOneThousand crore @ '' crore''],
                         tempNum mod 10000000)
                   else (wordsArray, tempNum));
                lakh = tempNum div 100000;
                (wordsArray, tempNum) =
                  (if lakh > 0
                   then (wordsArray @ [convertLessThanOneThousand lakh @ '' lakh''],
                         tempNum mod 100000)
                   else (wordsArray, tempNum));
                thousand = tempNum div 1000;
                (wordsArray, tempNum) =
                  (if thousand > 0
                   then (wordsArray @ [convertLessThanOneThousand thousand @ '' thousand''],
                         tempNum mod 1000)
                   else (wordsArray, tempNum));
                wordsArray =
                  (if tempNum > 0
                   then wordsArray @ [convertLessThanOneThousand tempNum]
                   else wordsArray)
            in join '' '' wordsArray)
      else '''')"

text \<open>
  \<^verbatim>\<open>toWords\<close> after its two guards, on a finite \<open>num \<ge> 0\<close>. \<^verbatim>\<open>Math.round\<close> rounds a half
  up, as \<^const>\<open>round\<close> does.
\<close>

definition toWords_body :: "real \<Rightarrow> string" where
  "toWords_body num =
     (let numberPart = \<lfloor>num\<rfloor>;
          decimalPart = round ((num - of_int numberPart) * 100)
      in if numberPart = 0 \<and> decimalPart = 0 then ''Zero Rupees Only''
         else (let rupeesInWords = rupeesInWords_of (nat numberPart);
                   result = (if rupeesInWords \<noteq> ''''
                             then upperFirst rupeesInWords @ '' Rupees''
                             else '''');
                   result =
                     (if decimalPart > 0
                      then (let paiseInWords = convertLessThanOneThousand (nat decimalPart);
                                result = (if result \<noteq> '''' then result @ '' and '' else result)
                            in result @ upperFirst paiseInWords @ '' Paise'')
                      else result)
               in trim result @ '' Only''))"

text \<open>
  \<^verbatim>\<open>toWords\<close>: not finite gives \<^verbatim>\<open>Invalid Number\<close>; a negative number is the words of
  its absolute value after \<^verbatim>\<open>Minus\<close>, by one recursive call.
\<close>

function toWords :: "number \<Rightarrow> string" where
  "toWords NaN = ''Invalid Number''"
| "toWords PosInfinity = ''Invalid Number''"
| "toWords NegInfinity = ''Invalid Number''"
| "toWords (Num num) =
     (if num < 0 then ''Minus '' @ toWords (Num \<bar>num\<bar>) else toWords_body num)"
  by pat_completeness auto
termination
  by (relation "measure (\<lambda>n. case n of Num x \<Rightarrow> (if x < 0 then 1 else 0) | _ \<Rightarrow> 0)") auto

declare toWords.simps(4) [simp del]

text \<open>
  The reading of the specification, to compare \<^verbatim>\<open>toWords\<close> with: the words of a number
  below one thousand, the four groups of the Indian system (crore, lakh, thousand and the
  rest), each nonzero group followed by its unit, and the sentence built from the integer
  part and the paise.
\<close>

definition english_below_hundred :: "nat \<Rightarrow> string" where
  "english_below_hundred r =
     (if r < 20 then ones ! r
      else tens ! (r div 10) @ (if r mod 10 = 0 then '''' else '' '' @ ones ! (r mod 10)))"

definition english_below_thousand :: "nat \<Rightarrow> string" where
  "english_below_thousand n =
     (if n < 100 then english_below_hundred n
      else ones ! (n div 100) @ '' hundred''
           @ (if n mod 100 = 0 then '''' else '' and '' @ english_below_hundred (n mod 100)))"

definition indian_groups :: "nat \<Rightarrow> (nat \<times> string) list" where
  "indian_groups n =
     [(n div 10 ^ 7, '' crore''), (n div 10 ^ 5 mod 100, '' lakh''),
      (n div 10 ^ 3 mod 100, '' thousand''), (n mod 1000, '''')]"

definition indian_words :: "nat \<Rightarrow> string" where
  "indian_words n =
     join '' '' (map (\<lambda>(g, u). english_below_thousand g @ u)
                   (filter (\<lambda>(g, u). g \<noteq> 0) (indian_groups n)))"

definition paise_of :: "real \<Rightarrow> nat" where
  "paise_of x = nat (round ((x - of_int \<lfloor>x\<rfloor>) * 100))"

definition rupees_clause :: "nat \<Rightarrow> string" where
  "rupees_clause n = upperFirst (if n = 0 then ''zero'' else indian_words n) @ '' Rupees''"

definition paise_clause :: "nat \<Rightarrow> string" where
  "paise_clause p = upperFirst (english_below_thousand p) @ '' Paise''"

definition spec_toWords_nonneg :: "real \<Rightarrow> string" where
  "spec_toWords_nonneg x =
     rupees_clause (nat \<lfloor>x\<rfloor>)
     @ (if paise_of x \<noteq> 0 then '' and '' @ paise_clause (paise_of x) else '''')
     @ '' Only''"

definition spec_toWords :: "real \<Rightarrow> string" where
  "spec_toWords x = (if x < 0 then ''Minus '' @ spec_toWords_nonneg \<bar>x\<bar> else spec_toWords_nonneg x)"

section \<open>Colours\<close>

definition getContrastColor :: "string \<Rightarrow> string" where
  "getContrastColor hexColor =
     (if hexColor = '''' then ''#ffffff''
      else (let hex = replaceFirst CHR ''#'' '''' hexColor
            in if length hex \<noteq> 6 then ''#ffffff''
               else (let r = parseInt16 (substring hex 0 2);
                         g = parseInt16 (substring hex 2 4);
                         b = parseInt16 (substring hex 4 6);
                         yiq = js_div (js_add (js_add (js_mul r (Num 299)) (js_mul g (Num 587)))
                                         (js_mul b (Num 114)))
                                 (Num 1000)
                     in if js_ge yiq (Num 128) then ''#000000'' else ''#ffffff'')))"

definition darkenColor :: "string \<Rightarrow> number \<Rightarrow> string" where
  "darkenColor hex percent =
     (if hex = '''' \<or> length hex < 7 then hex
      else (let R = parseInt16 (substring hex 1 3);
                G = parseInt16 (substring hex 3 5);
                B = parseInt16 (substring hex 5 7);
                factor = js_div (js_sub (Num 100) percent) (Num 100);
                R = Math_max (Num 0) (Math_floor (js_mul R factor));
                G = Math_max (Num 0) (Math_floor (js_mul G factor));
                B = Math_max (Num 0) (Math_floor (js_mul B factor));
                RR = padStart 2 CHR ''0'' (toString16 R);
                GG = padStart 2 CHR ''0'' (toString16 G);
                BB = padStart 2 CHR ''0'' (toString16 B)
            in ''#'' @ RR @ GG @ BB))"

section \<open>The mutations of the invoice\<close>

text \<open>
  \<^verbatim>\<open>handleInvoiceChange(key, value)\<close> replaces one top-level field: a key with the value of
  its type is one constructor of \<open>InvoiceField\<close>. The handlers read \<^verbatim>\<open>invoice.items\<close> and the
  updater of \<^verbatim>\<open>setInvoice\<close> reads \<^verbatim>\<open>prev\<close>; they are the same state here (each event is
  handled after the render that follows the event before it).
\<close>

datatype InvoiceField =
    F_logo "string option"
  | F_invoiceType InvoiceType
  | F_invoiceNumber string
  | F_date string
  | F_dueDate string
  | F_business Business
  | F_client Client
  | F_items "Item list"
  | F_cgstRate real
  | F_sgstRate real
  | F_igstRate real
  | F_taxRate real
  | F_discountRate real
  | F_currency Currency
  | F_bankDetails BankDetails
  | F_notes string
  | F_themeColor string

fun handleInvoiceChange :: "InvoiceField \<Rightarrow> Invoice \<Rightarrow> Invoice" where
  "handleInvoiceChange (F_logo v) prev = prev\<lparr>logo := v\<rparr>"
| "handleInvoiceChange (F_invoiceType v) prev = prev\<lparr>invoiceType := v\<rparr>"
| "handleInvoiceChange (F_invoiceNumber v) prev = prev\<lparr>invoiceNumber := v\<rparr>"
| "handleInvoiceChange (F_date v) prev = prev\<lparr>date := v\<rparr>"
| "handleInvoiceChange (F_dueDate v) prev = prev\<lparr>dueDate := v\<rparr>"
| "handleInvoiceChange (F_business v) prev = prev\<lparr>business := v\<rparr>"
| "handleInvoiceChange (F_client v) prev = prev\<lparr>client := v\<rparr>"
| "handleInvoiceChange (F_items v) prev = prev\<lparr>items := v\<rparr>"
| "handleInvoiceChange (F_cgstRate v) prev = prev\<lparr>cgstRate := v\<rparr>"
| "handleInvoiceChange (F_sgstRate v) prev = prev\<lparr>sgstRate := v\<rparr>"
| "handleInvoiceChange (F_igstRate v) prev = prev\<lparr>igstRate := v\<rparr>"
| "handleInvoiceChange (F_taxRate v) prev = prev\<lparr>taxRate := v\<rparr>"
| "handleInvoiceChange (F_discountRate v) prev = prev\<lparr>discountRate := v\<rparr>"
| "handleInvoiceChange (F_currency v) prev = prev\<lparr>currency := v\<rparr>"
| "handleInvoiceChange (F_bankDetails v) prev = prev\<lparr>bankDetails := v\<rparr>"
| "handleInvoiceChange (F_notes v) prev = prev\<lparr>notesText := v\<rparr>"
| "handleInvoiceChange (F_themeColor v) prev = prev\<lparr>themeColor := v\<rparr>"

text \<open>
  \<^verbatim>\<open>handleItemChange\<close>: the assignment \<^verbatim>\<open>newItems[index] = updatedItem\<close> replaces an element,
  or appends when \<open>index\<close> is the length. A larger index would leave holes in the array,
  which a list of items cannot hold: the result is \<open>None\<close> there.
\<close>

definition handleItemChange :: "nat \<Rightarrow> Item \<Rightarrow> Invoice \<Rightarrow> Invoice option" where
  "handleItemChange index updatedItem invoice =
     (let newItems = items invoice
      in if index < length newItems
         then Some (handleInvoiceChange (F_items (newItems[index := updatedItem])) invoice)
         else if index = length newItems
         then Some (handleInvoiceChange (F_items (newItems @ [updatedItem])) invoice)
         else None)"

text \<open>\<^verbatim>\<open>handleAddItem\<close>: \<open>now\<close> is what \<^verbatim>\<open>new Date().getTime()\<close> returns.\<close>

definition handleAddItem :: "int \<Rightarrow> Invoice \<Rightarrow> Invoice" where
  "handleAddItem now invoice =
     (let newItem = \<lparr> item_id = now, description = '''', quantity = 0, price = 0, hsn = '''' \<rparr>
      in handleInvoiceChange (F_items (items invoice @ [newItem])) invoice)"

definition handleRemoveItem :: "int \<Rightarrow> Invoice \<Rightarrow> Invoice" where
  "handleRemoveItem id' invoice =
     (let filteredItems = filter (\<lambda>item. item_id item \<noteq> id') (items invoice)
      in handleInvoiceChange (F_items filteredItems) invoice)"

text \<open>
  A session is a list of mutations applied in order to the state. A mutation is
  \<open>admissible\<close> in a state when it is one the form can issue at a time not used as an id
  before: a new item at a timestamp that is no id of the state, the removal of any id, the
  update of an item in range that keeps its id, and the update of a field (the items only
  by a list of distinct ids).
\<close>

datatype Mutation =
    AddItem int
  | RemoveItem int
  | UpdateItem nat Item
  | UpdateField InvoiceField

fun mutate :: "Mutation \<Rightarrow> Invoice \<Rightarrow> Invoice option" where
  "mutate (AddItem now) invoice = Some (handleAddItem now invoice)"
| "mutate (RemoveItem i) invoice = Some (handleRemoveItem i invoice)"
| "mutate (UpdateItem index updatedItem) invoice = handleItemChange index updatedItem invoice"
| "mutate (UpdateField f) invoice = Some (handleInvoiceChange f invoice)"

fun mutations :: "Mutation list \<Rightarrow> Invoice \<Rightarrow> Invoice option" where
  "mutations [] invoice = Some invoice"
| "mutations (m # ms) invoice =
     (case mutate m invoice of None \<Rightarrow> None | Some invoice' \<Rightarrow> mutations ms invoice')"

definition item_ids :: "Invoice \<Rightarrow> int list" where
  "item_ids invoice = map item_id (items invoice)"

fun admissible :: "Mutation \<Rightarrow> Invoice \<Rightarrow> bool" where
  "admissible (AddItem now) invoice = (now \<notin> set (item_ids invoice))"
| "admissible (RemoveItem i) invoice = True"
| "admissible (UpdateItem index updatedItem) invoice =
     (index < length (items invoice) \<and> item_id updatedItem = item_id (items invoice ! index))"
| "admissible (UpdateField (F_items v)) invoice = distinct (map item_id v)"
| "admissible (UpdateField f) invoice = True"

fun admissible_session :: "Mutation list \<Rightarrow> Invoice \<Rightarrow> bool" where
  "admissible_session [] invoice = True"
| "admissible_session (m # ms) invoice =
     (admissible m invoice \<and>
      (case mutate m invoice of None \<Rightarrow> False | Some invoice' \<Rightarrow> admissible_session ms invoice'))"

section \<open>The export guard\<close>

text \<open>
  The state of \<^verbatim>\<open>App\<close> that \<^verbatim>\<open>handleDownloadPdf\<close> reads and writes, and what it does to
  the outside as a list of effects: the timer \<^verbatim>\<open>showFeedback\<close> sets, the call of
  \<^verbatim>\<open>generatePdfBlob\<close> (the asynchronous work) and the click on the download link, with the
  file name and the blob. What the rasterizer and the PDF library produce is the
  parameter \<open>outcome\<close>.
\<close>

datatype FeedbackType = success | error

record Feedback =
  message :: string
  feedbackType :: FeedbackType

record App =
  invoice :: Invoice
  isDownloading :: bool
  feedback :: "Feedback option"

datatype Effect =
    SetTimeout_clearFeedback nat
  | Call_generatePdfBlob
  | Download string string

datatype PdfResult = NoPreviewRef | PdfFailure | PdfBlob string

definition showFeedback :: "string \<Rightarrow> FeedbackType \<Rightarrow> App \<Rightarrow> App \<times> Effect list" where
  "showFeedback msg type app =
     (app\<lparr>feedback := Some \<lparr> message = msg, feedbackType = type \<rparr>\<rparr>,
      [SetTimeout_clearFeedback 3000])"

definition generatePdfBlob :: "PdfResult \<Rightarrow> App \<Rightarrow> string option \<times> App \<times> Effect list" where
  "generatePdfBlob outcome app =
     (case outcome of
        NoPreviewRef \<Rightarrow> (None, app, [])
      | PdfFailure \<Rightarrow>
          (let (app', effects) = showFeedback ''Failed to generate PDF. Please try again.'' error app
           in (None, app', effects))
      | PdfBlob blob \<Rightarrow> (Some blob, app, []))"

fun invoiceTypeString :: "InvoiceType \<Rightarrow> string" where
  "invoiceTypeString Invoice_T = ''Invoice''"
| "invoiceTypeString Tax_Invoice_T = ''Tax Invoice''"
| "invoiceTypeString Quotation_T = ''Quotation''"
| "invoiceTypeString Proforma_Invoice_T = ''Proforma Invoice''"
| "invoiceTypeString Estimate_T = ''Estimate''"

definition handleDownloadPdf :: "PdfResult \<Rightarrow> App \<Rightarrow> App \<times> Effect list" where
  "handleDownloadPdf outcome app =
     (if trim (invoiceNumber (invoice app)) = ''''
      then showFeedback ''Invoice number cannot be empty.'' error app
      else (let app1 = app\<lparr>isDownloading := True\<rparr>;
                (blob, app2, effects) = generatePdfBlob outcome app1;
                effects = Call_generatePdfBlob # effects;
                effects =
                  (case blob of
                     Some b \<Rightarrow>
                       effects @
                       [Download
                          (replaceFirst CHR '' '' ''-''
                               (map toLowerCase (invoiceTypeString (invoiceType (invoice app))))
                             @ ''-'' @ invoiceNumber (invoice app) @ ''.pdf'')
                          b]
                   | None \<Rightarrow> effects)
            in (app2\<lparr>isDownloading := False\<rparr>, effects)))"

section \<open>Loading the draft\<close>

text \<open>
  What \<^verbatim>\<open>JSON.parse\<close> returns is a JSON value, and what \<^verbatim>\<open>loadInitialState\<close> returns is an
  object built by spreading: a finite map from property names to JSON values (TypeScript
  calls it an \<^verbatim>\<open>Invoice\<close>, and checks nothing at run time). \<open>properties\<close> gives the
  properties of an invoice record as such an object. A \<open>JObject\<close> lists each key once, as
  \<^verbatim>\<open>JSON.parse\<close> keeps one value for a key.
\<close>

datatype json =
    JNull
  | JBool bool
  | JNumber real
  | JString string
  | JArray "json list"
  | JObject "(string \<times> json) list"

type_synonym object = "string \<rightharpoonup> json"

fun toJSON_Business :: "Business \<Rightarrow> json" where
  "toJSON_Business b =
     JObject [(''name'', JString (name b)), (''address'', JString (address b)),
              (''email'', JString (email b))]"

fun toJSON_Item :: "Item \<Rightarrow> json" where
  "toJSON_Item i =
     JObject [(''id'', JNumber (of_int (item_id i))), (''description'', JString (description i)),
              (''quantity'', JNumber (quantity i)), (''price'', JNumber (price i)),
              (''hsn'', JString (hsn i))]"

fun toJSON_BankDetails :: "BankDetails \<Rightarrow> json" where
  "toJSON_BankDetails b =
     JObject ([(''name'', JString (holderName b)),
               (''accountNumber'', JString (accountNumber b)),
               (''bankName'', JString (bankName b)),
               (''ifscCode'', JString (ifscCode b))]
              @ (case upiId b of None \<Rightarrow> [] | Some u \<Rightarrow> [(''upiId'', JString u)]))"

fun currencyString :: "Currency \<Rightarrow> string" where
  "currencyString INR = ''INR''"
| "currencyString USD = ''USD''"
| "currencyString EUR = ''EUR''"
| "currencyString GBP = ''GBP''"

definition properties :: "Invoice \<Rightarrow> (string \<times> json) list" where
  "properties i =
     [(''logo'', (case logo i of None \<Rightarrow> JNull | Some l \<Rightarrow> JString l)),
      (''invoiceType'', JString (invoiceTypeString (invoiceType i))),
      (''invoiceNumber'', JString (invoiceNumber i)),
      (''date'', JString (date i)),
      (''dueDate'', JString (dueDate i)),
      (''business'', toJSON_Business (business i)),
      (''client'', toJSON_Business (client i)),
      (''items'', JArray (map toJSON_Item (items i))),
      (''cgstRate'', JNumber (cgstRate i)),
      (''sgstRate'', JNumber (sgstRate i)),
      (''igstRate'', JNumber (igstRate i)),
      (''taxRate'', JNumber (taxRate i)),
      (''discountRate'', JNumber (discountRate i)),
      (''currency'', JString (currencyString (currency i))),
      (''bankDetails'', toJSON_BankDetails (bankDetails i)),
      (''notes'', JString (notesText i)),
      (''themeColor'', JString (themeColor i))]"

text \<open>
  The own enumerable properties that \<^verbatim>\<open>...parsed\<close> copies: the members of an object, the
  indexed elements of an array or of a string, nothing for a number, a boolean or \<^verbatim>\<open>null\<close>.
\<close>

fun decimalString :: "nat \<Rightarrow> string" where
  "decimalString n =
     (if n < 10 then [''0123456789'' ! n]
      else decimalString (n div 10) @ [''0123456789'' ! (n mod 10)])"

declare decimalString.simps [simp del]

fun ownProperties :: "json \<Rightarrow> (string \<times> json) list" where
  "ownProperties (JObject kvs) = kvs"
| "ownProperties (JArray xs) = zip (map decimalString [0..<length xs]) xs"
| "ownProperties (JString s) = zip (map decimalString [0..<length s]) (map (\<lambda>c. JString [c]) s)"
| "ownProperties v = []"

text \<open>
  \<^verbatim>\<open>parsed.themeColor\<close>: a \<^verbatim>\<open>TypeError\<close> on \<^verbatim>\<open>null\<close>, the member of an object, and
  \<^verbatim>\<open>undefined\<close> (here \<open>None\<close>) when the object has no such member or the value is an array,
  a string, a number or a boolean. \<^verbatim>\<open>a || b\<close> is \<open>a\<close> when \<open>a\<close> is truthy and \<open>b\<close> otherwise.
\<close>

datatype exception = SyntaxError | TypeError

fun get_themeColor :: "json \<Rightarrow> exception + json option" where
  "get_themeColor JNull = Inl TypeError"
| "get_themeColor (JObject kvs) = Inr (map_of kvs ''themeColor'')"
| "get_themeColor v = Inr None"

fun truthy :: "json \<Rightarrow> bool" where
  "truthy JNull = False"
| "truthy (JBool b) = b"
| "truthy (JNumber x) = (x \<noteq> 0)"
| "truthy (JString s) = (s \<noteq> '''')"
| "truthy v = True"

definition logical_or :: "json option \<Rightarrow> json \<Rightarrow> json" where
  "logical_or a b = (case a of None \<Rightarrow> b | Some v \<Rightarrow> if truthy v then v else b)"

text \<open>
  The body of the \<^verbatim>\<open>try\<close> block of \<^verbatim>\<open>loadInitialState\<close>, with what it throws as a value;
  \<open>JSON_parse\<close> is the parser, \<open>None\<close> where it throws a \<^verbatim>\<open>SyntaxError\<close>.
\<close>

definition parse_and_merge ::
  "(string \<Rightarrow> json option) \<Rightarrow> object \<Rightarrow> string \<Rightarrow> exception + object" where
  "parse_and_merge JSON_parse defaults savedDraft =
     (case JSON_parse savedDraft of
        None \<Rightarrow> Inl SyntaxError
      | Some parsed \<Rightarrow>
          (case get_themeColor parsed of
             Inl e \<Rightarrow> Inl e
           | Inr tc \<Rightarrow>
               Inr ((defaults ++ map_of (ownProperties parsed))
                      (''themeColor'' \<mapsto> logical_or tc (JString DEFAULT_THEME_COLOR)))))"

text \<open>
  \<^verbatim>\<open>loadInitialState\<close>: \<open>getItem_invoiceDraft\<close> is what \<^verbatim>\<open>localStorage.getItem\<close> returns
  (\<open>None\<close> for \<^verbatim>\<open>null\<close>); the empty string is falsy, as \<^verbatim>\<open>null\<close> is.
\<close>

definition loadInitialState :: "(string \<Rightarrow> json option) \<Rightarrow> string option \<Rightarrow> object" where
  "loadInitialState JSON_parse getItem_invoiceDraft =
     (let defaults = map_of (properties getInitialInvoiceState)
      in case getItem_invoiceDraft of
           None \<Rightarrow> defaults
         | Some savedDraft \<Rightarrow>
             (if savedDraft = '''' then defaults
              else (case parse_and_merge JSON_parse defaults savedDraft of
                      Inr loaded \<Rightarrow> loaded
                    | Inl e \<Rightarrow> defaults)))"

text \<open>
  The reading of the specification, to compare \<^verbatim>\<open>loadInitialState\<close> with: the shallow merge
  of the parsed fields over the defaults, the theme colour set to the default when the
  parsed one is missing or empty, and kept otherwise.
\<close>

definition spec_load :: "json \<Rightarrow> object" where
  "spec_load parsed =
     (let defaults = map_of (properties getInitialInvoiceState);
          merged = defaults ++ map_of (ownProperties parsed)
      in case map_of (ownProperties parsed) ''themeColor'' of
           None \<Rightarrow> merged(''themeColor'' \<mapsto> JString DEFAULT_THEME_COLOR)
         | Some tc \<Rightarrow>
             if tc = JString '''' then merged(''themeColor'' \<mapsto> JString DEFAULT_THEME_COLOR)
             else merged)"

text \<open>A parser that accepts one text and rejects every other, for closed examples.\<close>

definition parses_only :: "string \<Rightarrow> json \<Rightarrow> string \<Rightarrow> json option" where
  "parses_only text v s = (if s = text then Some v else None)"

text \<open>The text of the object whose only member is \<^verbatim>\<open>themeColor\<close>, with the value \<open>0\<close>.\<close>

definition stored_zero_theme :: string where
  "stored_zero_theme = ''{'' @ [CHR 0x22] @ ''themeColor'' @ [CHR 0x22] @ '':0}''"

chapter \<open>Properties\<close>

section \<open>The calculation engine\<close>

lemma subtotal_calculations:
  "subtotal (calculations st) = (\<Sum>item\<leftarrow>items st. quantity item * price item)"
proof -
  have fold: "foldl (\<lambda>acc item. acc + quantity item * price item) a xs
     = a + (\<Sum>item\<leftarrow>xs. quantity item * price item)" for a :: real and xs :: "Item list"
    by (induction xs arbitrary: a) (simp_all add: add.assoc)
  show ?thesis
    by (simp add: calculations_def Let_def fold)
qed

text \<open>
  Claim C1. For every item list and every choice of rates, the subtotal is the sum over the
  items of quantity times price; the discount is the subtotal times the discount rate over
  100; the taxable amount is the subtotal less the discount; each of the four tax amounts is
  the taxable amount times its own rate over 100, all four on the same taxable base; the tax
  amount is the sum of the four; the total is the taxable amount plus the tax amount. The
  empty item list gives subtotal 0, and total 0 when all rates are 0. Numbers are exact
  reals here.
\<close>

theorem calculations_pipeline:
  fixes st :: Invoice
  defines "c \<equiv> calculations st"
  defines "taxableAmount \<equiv> subtotal c - discountAmount c"
  shows "subtotal c = (\<Sum>item\<leftarrow>items st. quantity item * price item)
       \<and> discountAmount c = subtotal c * discountRate st / 100
       \<and> cgstAmount c = taxableAmount * cgstRate st / 100
       \<and> sgstAmount c = taxableAmount * sgstRate st / 100
       \<and> igstAmount c = taxableAmount * igstRate st / 100
       \<and> genericTaxAmount c = taxableAmount * taxRate st / 100
       \<and> taxAmount c = cgstAmount c + sgstAmount c + igstAmount c + genericTaxAmount c
       \<and> total c = taxableAmount + taxAmount c
       \<and> total c = taxableAmount + cgstAmount c + sgstAmount c + igstAmount c
                      + genericTaxAmount c
       \<and> (items st = [] \<longrightarrow> subtotal c = 0)
       \<and> (items st = [] \<and> discountRate st = 0 \<and> cgstRate st = 0
            \<and> sgstRate st = 0 \<and> igstRate st = 0 \<and> taxRate st = 0
            \<longrightarrow> total c = 0)"
proof -
  have sub: "subtotal c = (\<Sum>item\<leftarrow>items st. quantity item * price item)"
    unfolding c_def by (rule subtotal_calculations)
  have rest: "discountAmount c = subtotal c * discountRate st / 100
       \<and> cgstAmount c = taxableAmount * cgstRate st / 100
       \<and> sgstAmount c = taxableAmount * sgstRate st / 100
       \<and> igstAmount c = taxableAmount * igstRate st / 100
       \<and> genericTaxAmount c = taxableAmount * taxRate st / 100
       \<and> taxAmount c = cgstAmount c + sgstAmount c + igstAmount c + genericTaxAmount c
       \<and> total c = taxableAmount + taxAmount c"
    unfolding c_def taxableAmount_def by (simp add: calculations_def Let_def)
  from rest have flat: "total c = taxableAmount + cgstAmount c + sgstAmount c + igstAmount c
                      + genericTaxAmount c"
    by simp
  have empty: "items st = [] \<longrightarrow> subtotal c = 0"
    using sub by simp
  have zero: "items st = [] \<and> discountRate st = 0 \<and> cgstRate st = 0
            \<and> sgstRate st = 0 \<and> igstRate st = 0 \<and> taxRate st = 0
            \<longrightarrow> total c = 0"
    unfolding c_def by (simp add: calculations_def Let_def)
  from sub rest flat empty zero show ?thesis by blast
qed

theorem calculations_pipeline_witness:
  "items (getInitialInvoiceState\<lparr>items := []\<rparr>) = []
   \<and> discountRate (getInitialInvoiceState\<lparr>items := []\<rparr>) = 0
   \<and> cgstRate (getInitialInvoiceState\<lparr>items := []\<rparr>) = 0
   \<and> sgstRate (getInitialInvoiceState\<lparr>items := []\<rparr>) = 0
   \<and> igstRate (getInitialInvoiceState\<lparr>items := []\<rparr>) = 0
   \<and> taxRate (getInitialInvoiceState\<lparr>items := []\<rparr>) = 0
   \<and> subtotal (calculations (getInitialInvoiceState\<lparr>items := []\<rparr>)) = 0
   \<and> total (calculations (getInitialInvoiceState\<lparr>items := []\<rparr>)) = 0"
  using calculations_pipeline [of "getInitialInvoiceState\<lparr>items := []\<rparr>"]
  by (simp add: getInitialInvoiceState_def)

text \<open>
  The end-to-end example of the specification: two items (2 at 100, 1 at 50), discount 10,
  CGST 9 and SGST 9 give subtotal 250, discount 25, both taxes 20.25 and total 265.5.
\<close>

lemma calculations_example:
  "calculations (getInitialInvoiceState
       \<lparr> items := [\<lparr> item_id = 1, description = '''', quantity = 2, price = 100, hsn = '''' \<rparr>,
                   \<lparr> item_id = 2, description = '''', quantity = 1, price = 50, hsn = '''' \<rparr>],
         cgstRate := 9, sgstRate := 9, discountRate := 10 \<rparr>)
     = \<lparr> subtotal = 250, discountAmount = 25, taxAmount = 81 / 2, total = 531 / 2,
         cgstAmount = 81 / 4, sgstAmount = 81 / 4, igstAmount = 0, genericTaxAmount = 0 \<rparr>"
  by (simp add: calculations_def getInitialInvoiceState_def Let_def)

section \<open>Amounts in words\<close>

text \<open>
  Claim C6. \<^verbatim>\<open>toWords\<close> of \<^verbatim>\<open>NaN\<close> and of either infinity is the invalid-amount
  indication \<^verbatim>\<open>Invalid Number\<close> (a value, nothing is thrown); \<^verbatim>\<open>toWords(0)\<close> is
  \<^verbatim>\<open>Zero Rupees Only\<close>; \<^verbatim>\<open>toWords(100)\<close> is \<^verbatim>\<open>One hundred Rupees Only\<close>; and
  \<^verbatim>\<open>toWords(100.5)\<close> has a Rupees clause and a Paise clause.
\<close>

theorem toWords_special_cases:
  "toWords NaN = ''Invalid Number''
   \<and> toWords PosInfinity = ''Invalid Number''
   \<and> toWords NegInfinity = ''Invalid Number''
   \<and> toWords (Num 0) = ''Zero Rupees Only''
   \<and> toWords (Num 100) = ''One hundred Rupees Only''
   \<and> toWords (Num (201 / 2)) = ''One hundred Rupees and Fifty Paise Only''"
  by (simp add: toWords.simps toWords_body_def rupeesInWords_of_def
      convertLessThanOneThousand_def word_at_def ones_def tens_def Let_def upperFirst_def
      toUpperCase_def trim_def isWhiteSpace_def)

text \<open>
  Towards claim C2: below one thousand the converter of the source gives the words of the
  specification, and the groups that the source takes off \<^verbatim>\<open>tempNum\<close> one after the other
  are the four groups of the Indian system.
\<close>

lemma length_ones: "length ones = 20"
  by (simp add: ones_def)

lemma length_tens: "length tens = 10"
  by (simp add: tens_def)

lemma ones_0: "ones ! 0 = ''''"
  by (simp add: ones_def)

lemma convertLessThanOneThousand_english:
  assumes "n < 1000"
  shows "convertLessThanOneThousand n = english_below_thousand n"
proof -
  have h: "n div 100 < 20" using assms by simp
  have t: "n mod 100 div 10 < 10"
    by (simp add: less_mult_imp_div_less)
  have u: "n div 10 < 10" if "n < 100"
    using that by (simp add: less_mult_imp_div_less)
  show ?thesis
    using h t u
    by (auto simp: convertLessThanOneThousand_def english_below_thousand_def
        english_below_hundred_def word_at_def Let_def length_ones length_tens ones_0)
qed

lemma reduce_or_keep: "(if 0 < n div k then n mod k else n) = n mod (k::nat)"
  by (cases "k = 0") (auto simp: div_greater_zero_iff)

lemma mod_div_group: "n mod (a * b) div a = n div a mod (b::nat)"
  by (cases "a = 0") (simp_all add: mod_mult2_eq)

lemma groups_arith:
  fixes n :: nat
  shows "n mod 10000000 div 100000 = n div 100000 mod 100"
    and "n mod 10000000 mod 100000 = n mod 100000"
    and "n mod 100000 div 1000 = n div 1000 mod 100"
    and "n mod 100000 mod 1000 = n mod 1000"
  using mod_div_group [of n 100000 100] mod_div_group [of n 1000 100]
  by (simp_all add: mod_mod_cancel)

lemma groups_zero:
  fixes n :: nat
  assumes "n div 10000000 = 0" and "n div 100000 mod 100 = 0" and "n div 1000 mod 100 = 0"
    and "n mod 1000 = 0"
  shows "n = 0"
proof -
  have a: "n div 100000 = 100 * (n div 100000 div 100) + n div 100000 mod 100"
    by simp
  have "n div 100000 div 100 = n div 10000000"
    by (simp add: div_mult2_eq [symmetric])
  with a assms have l: "n div 100000 = 0" by simp
  have b: "n div 1000 = 100 * (n div 1000 div 100) + n div 1000 mod 100"
    by simp
  have "n div 1000 div 100 = n div 100000"
    by (simp add: div_mult2_eq [symmetric])
  with b l assms have "n div 1000 = 0" by simp
  moreover have "n = 1000 * (n div 1000) + n mod 1000"
    by simp
  ultimately show ?thesis
    using assms(4) by simp
qed

lemma rupeesInWords_of_steps:
  assumes "0 < n"
  shows "rupeesInWords_of n
    = (let n1 = (if 0 < n div 10000000 then n mod 10000000 else n);
           n2 = (if 0 < n1 div 100000 then n1 mod 100000 else n1);
           n3 = (if 0 < n2 div 1000 then n2 mod 1000 else n2)
       in join '' ''
            ((if 0 < n div 10000000
              then [convertLessThanOneThousand (n div 10000000) @ '' crore''] else [])
             @ (if 0 < n1 div 100000
                then [convertLessThanOneThousand (n1 div 100000) @ '' lakh''] else [])
             @ (if 0 < n2 div 1000
                then [convertLessThanOneThousand (n2 div 1000) @ '' thousand''] else [])
             @ (if 0 < n3 then [convertLessThanOneThousand n3] else [])))"
proof (cases "0 < n div 10000000")
  case c: True
  show ?thesis
  proof (cases "0 < n mod 10000000 div 100000")
    case l: True
    show ?thesis
      using assms c l
      by (cases "0 < n mod 10000000 mod 100000 div 1000")
        (simp_all add: rupeesInWords_of_def Let_def)
  next
    case l: False
    show ?thesis
      using assms c l
      by (cases "0 < n mod 10000000 div 1000")
        (simp_all add: rupeesInWords_of_def Let_def)
  qed
next
  case c: False
  show ?thesis
  proof (cases "0 < n div 100000")
    case l: True
    show ?thesis
      using assms c l
      by (cases "0 < n mod 100000 div 1000")
        (simp_all add: rupeesInWords_of_def Let_def)
  next
    case l: False
    show ?thesis
      using assms c l
      by (cases "0 < n div 1000")
        (simp_all add: rupeesInWords_of_def Let_def)
  qed
qed

lemma rupeesInWords_of_indian:
  assumes "0 < n" and "n < 10 ^ 10"
  shows "rupeesInWords_of n = indian_words n"
proof -
  define c l t r where "c = n div 10000000" and "l = n div 100000 mod 100"
    and "t = n div 1000 mod 100" and "r = n mod 1000"
  have c: "c < 1000" using assms(2) by (simp add: c_def)
  have l: "l < 1000" and t: "t < 1000" and r: "r < 1000"
    by (simp_all add: l_def t_def r_def less_trans [OF mod_less_divisor])
  note conv = convertLessThanOneThousand_english [OF c] convertLessThanOneThousand_english [OF l]
    convertLessThanOneThousand_english [OF t] convertLessThanOneThousand_english [OF r]
  have facts: "n div 10000000 = c" "n mod 10000000 div 100000 = l"
    "n mod 10000000 mod 100000 = n mod 100000" "n mod 100000 div 1000 = t"
    "n mod 100000 mod 1000 = r"
    by (simp_all add: c_def l_def t_def r_def groups_arith)
  have "rupeesInWords_of n
      = join '' '' ((if 0 < c then [convertLessThanOneThousand c @ '' crore''] else [])
                    @ (if 0 < l then [convertLessThanOneThousand l @ '' lakh''] else [])
                    @ (if 0 < t then [convertLessThanOneThousand t @ '' thousand''] else [])
                    @ (if 0 < r then [convertLessThanOneThousand r] else []))"
    apply (subst rupeesInWords_of_steps [OF assms(1)])
    apply (simp only: Let_def reduce_or_keep)
    apply (simp only: facts)
    done
  also have "\<dots>
      = join '' '' ((if 0 < c then [english_below_thousand c @ '' crore''] else [])
                    @ (if 0 < l then [english_below_thousand l @ '' lakh''] else [])
                    @ (if 0 < t then [english_below_thousand t @ '' thousand''] else [])
                    @ (if 0 < r then [english_below_thousand r] else []))"
    unfolding conv ..
  also have "\<dots> = indian_words n"
    by (simp add: indian_words_def indian_groups_def c_def l_def t_def r_def)
  finally show ?thesis .
qed

text \<open>
  The sentence that \<^verbatim>\<open>toWords\<close> builds starts with a capital letter and ends with a
  letter, so \<^verbatim>\<open>trim\<close> leaves it as it is.
\<close>

lemma trim_id:
  assumes "s \<noteq> []" and "\<not> isWhiteSpace (hd s)" and "\<not> isWhiteSpace (last s)"
  shows "trim s = s"
proof -
  from assms(1,2) have front: "dropWhile isWhiteSpace s = s"
    by (cases s) simp_all
  from assms(1,3) have "dropWhile isWhiteSpace (rev s) = rev s"
    by (cases "rev s") (simp_all add: hd_rev)
  with front show ?thesis by (simp add: trim_def)
qed

lemma word_starts:
  shows "\<forall>w\<in>set (tl ones). w \<noteq> [] \<and> \<not> isWhiteSpace (toUpperCase (hd w))"
    and "\<forall>w\<in>set (drop 2 tens). w \<noteq> [] \<and> \<not> isWhiteSpace (toUpperCase (hd w))"
  by (simp_all add: ones_def tens_def toUpperCase_def isWhiteSpace_def)

lemma ones_starts:
  assumes "0 < k" and "k < 20"
  shows "ones ! k \<noteq> [] \<and> \<not> isWhiteSpace (toUpperCase (hd (ones ! k)))"
proof -
  from assms have "tl ones ! (k - 1) = ones ! k" "k - 1 < length (tl ones)"
    by (simp_all add: nth_tl length_ones)
  then have "ones ! k \<in> set (tl ones)"
    by (metis nth_mem)
  with word_starts(1) show ?thesis by blast
qed

lemma tens_starts:
  assumes "2 \<le> k" and "k < 10"
  shows "tens ! k \<noteq> [] \<and> \<not> isWhiteSpace (toUpperCase (hd (tens ! k)))"
proof -
  from assms have e: "Suc (Suc (k - 2)) = k" by simp
  from assms have "drop 2 tens ! (k - 2) = tens ! k" "k - 2 < length (drop 2 tens)"
    by (simp_all add: length_tens e)
  then have "tens ! k \<in> set (drop 2 tens)"
    by (metis nth_mem)
  with word_starts(2) show ?thesis by blast
qed

lemma english_below_thousand_starts:
  assumes "0 < g" and "g < 1000"
  shows "english_below_thousand g \<noteq> []
         \<and> \<not> isWhiteSpace (toUpperCase (hd (english_below_thousand g)))"
proof (cases "g < 100")
  case small: True
  show ?thesis
  proof (cases "g < 20")
    case True
    with assms small ones_starts [of g] show ?thesis
      by (simp add: english_below_thousand_def english_below_hundred_def)
  next
    case False
    with small have "2 \<le> g div 10" "g div 10 < 10" by simp_all
    from tens_starts [OF this] False small show ?thesis
      by (simp add: english_below_thousand_def english_below_hundred_def)
  qed
next
  case False
  with assms have "0 < g div 100" "g div 100 < 20" by simp_all
  from ones_starts [OF this] False show ?thesis
    by (simp add: english_below_thousand_def)
qed

lemma join_starts:
  assumes "w \<noteq> []"
  shows "join sep (w # ws) \<noteq> [] \<and> hd (join sep (w # ws)) = hd w"
  using assms by (cases ws) simp_all

lemma first_group_starts:
  assumes "0 < g" and "g < 1000"
  shows "join sep ((english_below_thousand g @ u) # ws) \<noteq> []
         \<and> \<not> isWhiteSpace (toUpperCase (hd (join sep ((english_below_thousand g @ u) # ws))))"
proof -
  from english_below_thousand_starts [OF assms]
  have first: "english_below_thousand g @ u \<noteq> []"
    "hd (english_below_thousand g @ u) = hd (english_below_thousand g)"
    by simp_all
  from join_starts [OF first(1), of sep ws] first(2) english_below_thousand_starts [OF assms]
  show ?thesis by simp
qed

lemma indian_words_starts:
  assumes "0 < n" and "n < 10 ^ 10"
  shows "indian_words n \<noteq> [] \<and> \<not> isWhiteSpace (toUpperCase (hd (indian_words n)))"
proof -
  define c l t r where "c = n div 10000000" and "l = n div 100000 mod 100"
    and "t = n div 1000 mod 100" and "r = n mod 1000"
  have c: "c < 1000" using assms(2) by (simp add: c_def)
  have l: "l < 1000" and t: "t < 1000" and r: "r < 1000"
    by (simp_all add: l_def t_def r_def less_trans [OF mod_less_divisor])
  have spec: "indian_words n
      = join '' '' ((if 0 < c then [english_below_thousand c @ '' crore''] else [])
                    @ (if 0 < l then [english_below_thousand l @ '' lakh''] else [])
                    @ (if 0 < t then [english_below_thousand t @ '' thousand''] else [])
                    @ (if 0 < r then [english_below_thousand r @ ''''] else []))"
    by (simp add: indian_words_def indian_groups_def c_def l_def t_def r_def)
  consider "0 < c" | "c = 0" "0 < l" | "c = 0" "l = 0" "0 < t" | "c = 0" "l = 0" "t = 0" "0 < r"
    using groups_zero [of n] assms(1) unfolding c_def l_def t_def r_def by fastforce
  then show ?thesis
  proof cases
    case 1
    with first_group_starts [OF 1 c] show ?thesis
      unfolding spec by simp
  next
    case 2
    with first_group_starts [OF 2(2) l] show ?thesis
      unfolding spec by simp
  next
    case 3
    with first_group_starts [OF 3(3) t] show ?thesis
      unfolding spec by simp
  next
    case 4
    with english_below_thousand_starts [OF 4(4) r] show ?thesis
      unfolding spec by simp
  qed
qed

lemma upperFirst_starts:
  assumes "w \<noteq> []" and "\<not> isWhiteSpace (toUpperCase (hd w))"
  shows "upperFirst w \<noteq> []" and "\<not> isWhiteSpace (hd (upperFirst w))"
  using assms by (cases w; simp add: upperFirst_def)+

lemma trim_sentence:
  assumes "w \<noteq> []" and "\<not> isWhiteSpace (toUpperCase (hd w))"
    and "s \<noteq> []" and "\<not> isWhiteSpace (last s)"
  shows "trim (upperFirst w @ s) = upperFirst w @ s"
  using assms upperFirst_starts [OF assms(1,2)]
  by (intro trim_id) simp_all

lemma decimalPart_bounds:
  fixes x :: real
  shows "0 \<le> round ((x - of_int \<lfloor>x\<rfloor>) * 100)" and "round ((x - of_int \<lfloor>x\<rfloor>) * 100) \<le> 100"
proof -
  have f: "0 \<le> x - of_int \<lfloor>x\<rfloor>" "x - of_int \<lfloor>x\<rfloor> < 1"
    by linarith+
  then have "0 \<le> (x - of_int \<lfloor>x\<rfloor>) * 100 + 1 / 2" "(x - of_int \<lfloor>x\<rfloor>) * 100 + 1 / 2 < 101"
    by simp_all
  then show "0 \<le> round ((x - of_int \<lfloor>x\<rfloor>) * 100)" "round ((x - of_int \<lfloor>x\<rfloor>) * 100) \<le> 100"
    unfolding round_def by (simp_all add: floor_less_iff le_floor_iff flip: less_Suc_eq_le)
qed

lemma toWords_body_rupees:
  assumes "0 < n" and "n < 10 ^ 10" and "\<lfloor>x\<rfloor> = int n"
  shows "toWords_body x = spec_toWords_nonneg x"
proof -
  define p where "p = paise_of x"
  have dp: "round ((x - of_int (int n)) * 100) = int p" and p: "p < 1000"
    using decimalPart_bounds [of x] by (simp_all add: p_def paise_of_def assms(3))
  note w = indian_words_starts [OF assms(1,2)]
  have rupees: "rupeesInWords_of n = indian_words n"
    by (rule rupeesInWords_of_indian [OF assms(1,2)])
  show ?thesis
  proof (cases "p = 0")
    case True
    have "trim (upperFirst (indian_words n) @ '' Rupees'') = upperFirst (indian_words n) @ '' Rupees''"
      using w by (intro trim_sentence) (simp_all add: isWhiteSpace_def)
    with True w assms(1) show ?thesis
      unfolding toWords_body_def Let_def assms(3) dp
      by (simp add: spec_toWords_nonneg_def rupees_clause_def assms(3)
          rupees p_def [symmetric] upperFirst_starts)
  next
    case False
    then have pos: "0 < p" by simp
    have conv: "convertLessThanOneThousand p = english_below_thousand p"
      by (rule convertLessThanOneThousand_english [OF p])
    have "trim (upperFirst (indian_words n)
                @ ('' Rupees and '' @ upperFirst (english_below_thousand p) @ '' Paise''))
        = upperFirst (indian_words n)
                @ ('' Rupees and '' @ upperFirst (english_below_thousand p) @ '' Paise'')"
      using w by (intro trim_sentence) (simp_all add: isWhiteSpace_def)
    with False pos w assms(1) show ?thesis
      unfolding toWords_body_def Let_def assms(3) dp
      by (simp add: spec_toWords_nonneg_def rupees_clause_def
          paise_clause_def assms(3) rupees conv p_def [symmetric] upperFirst_starts)
  qed
qed

lemma toWords_body_paise_only:
  assumes "\<lfloor>x\<rfloor> = 0" and "paise_of x \<noteq> 0"
  shows "toWords_body x = paise_clause (paise_of x) @ '' Only''"
proof -
  define p where "p = paise_of x"
  have dp: "round ((x - of_int 0) * 100) = int p" and p: "p < 1000" and pos: "0 < p"
    using decimalPart_bounds [of x] assms by (simp_all add: p_def paise_of_def)
  have conv: "convertLessThanOneThousand p = english_below_thousand p"
    by (rule convertLessThanOneThousand_english [OF p])
  note w = english_below_thousand_starts [OF pos p]
  have "trim (upperFirst (english_below_thousand p) @ '' Paise'')
        = upperFirst (english_below_thousand p) @ '' Paise''"
    using w by (intro trim_sentence) (simp_all add: isWhiteSpace_def)
  with pos show ?thesis
    unfolding toWords_body_def Let_def assms(1) dp
    by (simp add: paise_clause_def conv p_def [symmetric] rupeesInWords_of_def)
qed

lemma toWords_body_zero:
  assumes "\<lfloor>x\<rfloor> = 0" and "paise_of x = 0"
  shows "toWords_body x = spec_toWords_nonneg x"
proof -
  have dp: "round ((x - of_int 0) * 100) = 0"
    using decimalPart_bounds [of x] assms by (simp add: paise_of_def)
  show ?thesis
    unfolding toWords_body_def Let_def assms(1) dp
    using assms
    by (simp add: spec_toWords_nonneg_def rupees_clause_def upperFirst_def toUpperCase_def)
qed

text \<open>
  Claim C2, as amended. For every finite amount \<open>x\<close> with \<open>0 \<le> x < 10 ^ 10\<close> (every group
  below one thousand), \<^verbatim>\<open>toWords\<close> is the sentence of the specification: the integer part
  in words by Indian grouping, then \<^verbatim>\<open>Rupees\<close>, then \<^verbatim>\<open>and ... Paise\<close> when the paise are
  not zero, then \<^verbatim>\<open>Only\<close>; except that an amount below one rupee with nonzero paise has
  no Rupees clause and is the Paise clause followed by \<^verbatim>\<open>Only\<close>. A negative amount is
  \<^verbatim>\<open>Minus\<close> followed by the words of its absolute value.
\<close>

theorem toWords_amended:
  "(0 \<le> x \<and> x < 10 ^ 10 \<longrightarrow>
      toWords (Num x)
        = (if \<lfloor>x\<rfloor> = 0 \<and> paise_of x \<noteq> 0 then paise_clause (paise_of x) @ '' Only''
           else spec_toWords x))
   \<and> (x < 0 \<longrightarrow> toWords (Num x) = ''Minus '' @ toWords (Num \<bar>x\<bar>))"
proof -
  have nonneg: "toWords (Num x)
        = (if \<lfloor>x\<rfloor> = 0 \<and> paise_of x \<noteq> 0 then paise_clause (paise_of x) @ '' Only''
           else spec_toWords x)" if x: "0 \<le> x" "x < 10 ^ 10"
  proof -
    from x(1) have body: "toWords (Num x) = toWords_body x" and spec: "spec_toWords x = spec_toWords_nonneg x"
      by (simp_all add: toWords.simps(4) spec_toWords_def)
    show ?thesis
    proof (cases "\<lfloor>x\<rfloor> = 0")
      case True
      then show ?thesis
        unfolding body spec
        by (cases "paise_of x = 0") (simp_all add: toWords_body_zero toWords_body_paise_only)
    next
      case False
      define n where "n = nat \<lfloor>x\<rfloor>"
      from x(1) have "0 \<le> \<lfloor>x\<rfloor>" by simp
      with False have "0 < \<lfloor>x\<rfloor>" by linarith
      then have n: "0 < n" "\<lfloor>x\<rfloor> = int n"
        unfolding n_def by linarith+
      from x(2) have "\<lfloor>x\<rfloor> < 10 ^ 10"
        by (simp add: floor_less_iff)
      with n(2) have "n < 10 ^ 10" by simp
      from toWords_body_rupees [OF n(1) this n(2)] False show ?thesis
        unfolding body spec by simp
    qed
  qed
  have neg: "toWords (Num x) = ''Minus '' @ toWords (Num \<bar>x\<bar>)" if "x < 0"
    using that by (simp add: toWords.simps(4))
  from nonneg neg show ?thesis by blast
qed

theorem toWords_amended_witness:
  "(0::real) \<le> 123456789 / 4 \<and> (123456789 / 4 :: real) < 10 ^ 10
   \<and> toWords (Num (123456789 / 4))
       = ''Three crore eight lakh sixty four thousand one hundred and ninety seven Rupees and Twenty five Paise Only''
   \<and> (- 3 / 2 :: real) < 0
   \<and> toWords (Num (- 3 / 2)) = ''Minus '' @ toWords (Num (3 / 2))"
  using toWords_amended [of "123456789 / 4"] toWords_amended [of "- 3 / 2"]
  by (simp add: spec_toWords_def spec_toWords_nonneg_def rupees_clause_def paise_clause_def
      paise_of_def indian_words_def indian_groups_def english_below_thousand_def
      english_below_hundred_def ones_def tens_def upperFirst_def toUpperCase_def)

text \<open>
  Claim C2 as stated fails on half a rupee: the code gives \<^verbatim>\<open>Fifty Paise Only\<close>, with no
  Rupees clause, where the claim asks for the integer part in words followed by
  \<^verbatim>\<open>Rupees\<close>.
\<close>

theorem toWords_paise_only_counterexample:
  "toWords (Num (1 / 2)) = ''Fifty Paise Only''
   \<and> spec_toWords (1 / 2) = ''Zero Rupees and Fifty Paise Only''
   \<and> toWords (Num (1 / 2)) \<noteq> spec_toWords (1 / 2)"
  by (simp add: toWords.simps(4) toWords_body_def rupeesInWords_of_def
      convertLessThanOneThousand_def word_at_def Let_def trim_def isWhiteSpace_def
      spec_toWords_def spec_toWords_nonneg_def rupees_clause_def paise_clause_def
      paise_of_def english_below_thousand_def
      english_below_hundred_def ones_def tens_def upperFirst_def toUpperCase_def)

text \<open>
  Why the amended claim stops below \<open>10 ^ 10\<close>: the crore group is passed to
  \<^verbatim>\<open>convertLessThanOneThousand\<close> whatever its size, and from two thousand crore on the index
  into \<^verbatim>\<open>ones\<close> is past its end.
\<close>

lemma toWords_beyond_range_example:
  "toWords (Num 20000000000) = ''Undefined hundred crore Rupees Only''"
  by (simp add: toWords.simps(4) toWords_body_def rupeesInWords_of_def
      convertLessThanOneThousand_def word_at_def ones_def tens_def Let_def upperFirst_def
      toUpperCase_def trim_def isWhiteSpace_def)

section \<open>Colours\<close>

text \<open>
  Towards claim C5: \<^verbatim>\<open>parseInt\<close> of two hexadecimal digits is their value.
\<close>

lemma isHexDigit_plain:
  assumes "isHexDigit c"
  shows "\<not> isWhiteSpace c" and "c \<noteq> CHR ''+''" and "c \<noteq> CHR ''-''"
    and "c \<noteq> CHR ''x''" and "c \<noteq> CHR ''X''"
  using assms
  by (auto simp: isHexDigit_def hexDigits_def isWhiteSpace_def split: if_splits)

lemma parseInt16_two_digits:
  assumes "isHexDigit a" and "isHexDigit b"
  shows "parseInt16 [a, b] = Num (of_nat (16 * hexDigitValue a + hexDigitValue b))"
  using assms isHexDigit_plain [OF assms(1)] isHexDigit_plain [OF assms(2)]
  by (simp add: parseInt16_def hexValue_def Let_def)

lemma length_six:
  assumes "length xs = 6"
  obtains a b c d e f where "xs = [a, b, c, d, e, f]"
proof -
  from assms have "length xs = Suc (Suc (Suc (Suc (Suc (Suc 0)))))" by simp
  then show thesis
    by (auto simp: length_Suc_conv intro: that)
qed

text \<open>
  Claim C5. With \<open>hex\<close> the input without its first \<^verbatim>\<open>#\<close>: when \<open>hex\<close> is six
  hexadecimal digits, \<^verbatim>\<open>getContrastColor\<close> returns black when the luma
  \<open>0.299 R + 0.587 G + 0.114 B\<close> of the decoded channels is at least 128 and white
  otherwise; when the length of \<open>hex\<close> is not 6 it returns white; \<^verbatim>\<open>#000000\<close> gives white
  and \<^verbatim>\<open>#FFFFFF\<close> gives black. The function is total: nothing is thrown.
\<close>

theorem getContrastColor_luma:
  fixes hexColor :: string
  defines "hex \<equiv> replaceFirst CHR ''#'' '''' hexColor"
  defines "R \<equiv> real (16 * hexDigitValue (hex ! 0) + hexDigitValue (hex ! 1))"
  defines "G \<equiv> real (16 * hexDigitValue (hex ! 2) + hexDigitValue (hex ! 3))"
  defines "B \<equiv> real (16 * hexDigitValue (hex ! 4) + hexDigitValue (hex ! 5))"
  shows "(length hex = 6 \<and> (\<forall>c\<in>set hex. isHexDigit c) \<longrightarrow>
            getContrastColor hexColor
              = (if 0.299 * R + 0.587 * G + 0.114 * B \<ge> 128 then ''#000000'' else ''#ffffff''))
         \<and> (length hex \<noteq> 6 \<longrightarrow> getContrastColor hexColor = ''#ffffff'')
         \<and> getContrastColor ''#000000'' = ''#ffffff''
         \<and> getContrastColor ''#FFFFFF'' = ''#000000''"
proof -
  have decode: "getContrastColor hexColor
              = (if 0.299 * R + 0.587 * G + 0.114 * B \<ge> 128 then ''#000000'' else ''#ffffff'')"
    if len: "length hex = 6" and digits: "\<forall>c\<in>set hex. isHexDigit c"
  proof -
    from len obtain a b c d e f where hex: "hex = [a, b, c, d, e, f]"
      by (rule length_six)
    from digits hex have d: "isHexDigit a" "isHexDigit b" "isHexDigit c" "isHexDigit d"
      "isHexDigit e" "isHexDigit f"
      by simp_all
    have ne: "hexColor \<noteq> ''''"
      using hex unfolding hex_def by auto
    have sub: "substring hex 0 2 = [a, b]" "substring hex 2 4 = [c, d]"
      "substring hex 4 6 = [e, f]"
      by (simp_all add: hex substring_def)
    have "getContrastColor hexColor
        = (if js_ge (js_div (js_add (js_add (js_mul (Num R) (Num 299)) (js_mul (Num G) (Num 587)))
                               (js_mul (Num B) (Num 114))) (Num 1000)) (Num 128)
           then ''#000000'' else ''#ffffff'')"
      using ne len sub
      by (simp add: getContrastColor_def hex_def [symmetric] Let_def parseInt16_two_digits d
          R_def G_def B_def hex del: of_nat_add of_nat_mult)
    also have "\<dots> = (if 0.299 * R + 0.587 * G + 0.114 * B \<ge> 128 then ''#000000'' else ''#ffffff'')"
      by (simp add: field_simps)
    finally show ?thesis .
  qed
  have malformed: "getContrastColor hexColor = ''#ffffff''" if "length hex \<noteq> 6"
    using that by (simp add: getContrastColor_def hex_def Let_def)
  have black: "getContrastColor ''#000000'' = ''#ffffff''"
    by (simp add: getContrastColor_def parseInt16_def substring_def isWhiteSpace_def
        isHexDigit_def hexDigits_def hexValue_def hexDigitValue_def Let_def)
  have white: "getContrastColor ''#FFFFFF'' = ''#000000''"
    by (simp add: getContrastColor_def parseInt16_def substring_def isWhiteSpace_def
        isHexDigit_def hexDigits_def hexValue_def hexDigitValue_def Let_def)
  from decode malformed black white show ?thesis by blast
qed

theorem getContrastColor_luma_witness:
  "length (replaceFirst CHR ''#'' '''' ''#10B981'') = 6
   \<and> list_all isHexDigit (replaceFirst CHR ''#'' '''' ''#10B981'')
   \<and> getContrastColor ''#10B981'' = ''#000000''
   \<and> length (replaceFirst CHR ''#'' '''' ''#fff'') \<noteq> 6
   \<and> getContrastColor ''#fff'' = ''#ffffff''"
  using getContrastColor_luma [of "''#10B981''"] getContrastColor_luma [of "''#fff''"]
  by (simp add: isHexDigit_def hexDigits_def hexDigitValue_def)

text \<open>
  Claim C10. \<^verbatim>\<open>darkenColor\<close> returns its input unchanged, for every percentage (\<^verbatim>\<open>NaN\<close> and
  the infinities included), when the input is empty or shorter than 7 characters.
\<close>

theorem darkenColor_short_input:
  "hex = '''' \<or> length hex < 7 \<Longrightarrow> darkenColor hex percent = hex"
  by (simp add: darkenColor_def)

theorem darkenColor_short_input_witness:
  "length ''#fff'' < 7 \<and> darkenColor ''#fff'' (Num 10) = ''#fff''"
  using darkenColor_short_input [of "''#fff''" "Num 10"] by simp

text \<open>
  On a well-formed colour the channels are scaled, floored and encoded again.
\<close>

lemma darkenColor_example: "darkenColor ''#10B981'' (Num 10) = ''#0ea674''"
  by (simp add: darkenColor_def parseInt16_def substring_def isWhiteSpace_def isHexDigit_def
      hexDigits_def hexValue_def hexDigitValue_def Math_max_def padStart_def
      natToString16.simps lowerHexDigit_def js_sub_def Let_def)

section \<open>The mutations of the invoice\<close>

text \<open>
  Claim C9. \<^verbatim>\<open>handleRemoveItem\<close> keeps, in order, exactly the items whose id differs from
  the given id: no item with that id is left, no other field changes, and when no item has
  the id the state is unchanged.
\<close>

theorem handleRemoveItem_removes_exactly:
  "items (handleRemoveItem i st) = filter (\<lambda>item. item_id item \<noteq> i) (items st)
   \<and> i \<notin> set (item_ids (handleRemoveItem i st))
   \<and> handleRemoveItem i st = st\<lparr>items := items (handleRemoveItem i st)\<rparr>
   \<and> (i \<notin> set (item_ids st) \<longrightarrow> handleRemoveItem i st = st)"
proof -
  have kept: "items (handleRemoveItem i st)
      = filter (\<lambda>item. item_id item \<noteq> i) (items st)"
    by (simp add: handleRemoveItem_def)
  have gone: "i \<notin> set (item_ids (handleRemoveItem i st))"
    by (auto simp: item_ids_def kept)
  have rest: "handleRemoveItem i st = st\<lparr>items := items (handleRemoveItem i st)\<rparr>"
    by (simp add: handleRemoveItem_def)
  have noop: "handleRemoveItem i st = st" if "i \<notin> set (item_ids st)"
  proof -
    from that have "filter (\<lambda>item. item_id item \<noteq> i) (items st) = items st"
      by (auto simp: item_ids_def filter_id_conv)
    then show ?thesis by (simp add: handleRemoveItem_def)
  qed
  from kept gone rest noop show ?thesis by blast
qed

theorem handleRemoveItem_removes_exactly_witness:
  "7 \<notin> set (item_ids getInitialInvoiceState)
   \<and> handleRemoveItem 7 getInitialInvoiceState = getInitialInvoiceState
   \<and> items (handleRemoveItem 1 getInitialInvoiceState) = []"
  using handleRemoveItem_removes_exactly [of 7 getInitialInvoiceState]
    handleRemoveItem_removes_exactly [of 1 getInitialInvoiceState]
  by (simp add: getInitialInvoiceState_def item_ids_def)

text \<open>
  Claim C4, as amended. When the id that \<^verbatim>\<open>handleAddItem\<close> mints (the current time in
  milliseconds) is not the id of an item of the state, \<^verbatim>\<open>handleAddItem\<close> followed by
  \<^verbatim>\<open>handleRemoveItem\<close> of that id gives back the state, items in order.
\<close>

theorem add_then_remove_restores:
  "now \<notin> set (item_ids st)
   \<Longrightarrow> handleRemoveItem now (handleAddItem now st) = st"
proof -
  assume fresh: "now \<notin> set (item_ids st)"
  then have "filter (\<lambda>item. item_id item \<noteq> now) (items st) = items st"
    by (auto simp: item_ids_def filter_id_conv)
  then show ?thesis
    by (simp add: handleRemoveItem_def handleAddItem_def)
qed

theorem add_then_remove_restores_witness:
  "1700000000000 \<notin> set (item_ids getInitialInvoiceState)
   \<and> handleRemoveItem 1700000000000 (handleAddItem 1700000000000 getInitialInvoiceState)
       = getInitialInvoiceState"
  using add_then_remove_restores [of 1700000000000 getInitialInvoiceState]
  by (simp add: getInitialInvoiceState_def item_ids_def)

text \<open>
  Claim C4 as stated fails when the minted id is already in use: with an item added at
  the current millisecond already in the list, adding another in that millisecond and
  removing its id removes both, and the sequence before the addition is not restored.
\<close>

theorem add_then_remove_counterexample:
  "items (handleRemoveItem 1700000000000
            (handleAddItem 1700000000000 (handleAddItem 1700000000000 getInitialInvoiceState)))
   \<noteq> items (handleAddItem 1700000000000 getInitialInvoiceState)"
  by (simp add: handleRemoveItem_def handleAddItem_def getInitialInvoiceState_def)

text \<open>
  Towards claim C8: an admissible mutation succeeds and keeps the ids distinct.
\<close>

lemma distinct_ids_update_same_id:
  assumes "distinct (map item_id xs)" and "k < length xs" and "item_id y = item_id (xs ! k)"
  shows "distinct (map item_id (xs[k := y]))"
proof -
  have "map item_id (xs[k := y]) = (map item_id xs)[k := item_id (xs ! k)]"
    using assms(3) by (simp add: map_update)
  also have "\<dots> = map item_id xs"
    using assms(2) by (simp add: list_update_same_conv)
  finally show ?thesis using assms(1) by simp
qed

lemma admissible_step:
  assumes "admissible m st" and "distinct (item_ids st)"
  shows "\<exists>st'. mutate m st = Some st' \<and> distinct (item_ids st')"
proof (cases m)
  case (AddItem now)
  with assms show ?thesis
    by (simp add: handleAddItem_def item_ids_def)
next
  case (RemoveItem i)
  with assms show ?thesis
    by (simp add: handleRemoveItem_def item_ids_def distinct_map_filter)
next
  case (UpdateItem k y)
  with assms show ?thesis
    by (simp add: handleItemChange_def item_ids_def distinct_ids_update_same_id)
next
  case (UpdateField f)
  with assms show ?thesis
    by (cases f) (simp_all add: item_ids_def)
qed

lemma admissible_session_prefix:
  assumes "distinct (item_ids st)" and "admissible_session ms st"
  shows "\<exists>st'. mutations (take k ms) st = Some st' \<and> distinct (item_ids st')"
  using assms
proof (induction ms arbitrary: st k)
  case Nil
  then show ?case by simp
next
  case (Cons m ms)
  show ?case
  proof (cases k)
    case 0
    with Cons.prems show ?thesis by simp
  next
    case (Suc j)
    from Cons.prems have adm: "admissible m st" by simp
    from admissible_step [OF adm Cons.prems(1)]
    obtain st1 where st1: "mutate m st = Some st1" "distinct (item_ids st1)" by blast
    with Cons.prems have "admissible_session ms st1" by simp
    from Cons.IH [OF st1(2) this, of j] st1(1) Suc show ?thesis by simp
  qed
qed

text \<open>
  Claim C8, as amended. From the initial state, after every prefix of an admissible session
  (new items at timestamps not in use as ids, removals, updates in range that keep the id,
  field updates that leave the items alone or set them to a list with distinct ids) the
  ids of the items are pairwise distinct.
\<close>

theorem item_ids_distinct_invariant:
  assumes "admissible_session ms getInitialInvoiceState"
  shows "\<exists>st'. mutations (take k ms) getInitialInvoiceState = Some st'
               \<and> distinct (item_ids st')"
proof -
  have "distinct (item_ids getInitialInvoiceState)"
    by (simp add: item_ids_def getInitialInvoiceState_def)
  from admissible_session_prefix [OF this assms] show ?thesis .
qed

theorem item_ids_distinct_invariant_witness:
  "admissible_session
     [AddItem 1700000000000,
      UpdateItem 0 \<lparr> item_id = 1, description = ''Paper'', quantity = 2, price = 100, hsn = '''' \<rparr>,
      RemoveItem 1,
      UpdateField (F_discountRate 10)]
     getInitialInvoiceState
   \<and> (\<exists>st'. mutations
              (take 4
                 [AddItem 1700000000000,
                  UpdateItem 0 \<lparr> item_id = 1, description = ''Paper'', quantity = 2, price = 100,
                                 hsn = '''' \<rparr>,
                  RemoveItem 1,
                  UpdateField (F_discountRate 10)])
              getInitialInvoiceState = Some st'
            \<and> distinct (item_ids st'))"
proof -
  have adm: "admissible_session
     [AddItem 1700000000000,
      UpdateItem 0 \<lparr> item_id = 1, description = ''Paper'', quantity = 2, price = 100, hsn = '''' \<rparr>,
      RemoveItem 1,
      UpdateField (F_discountRate 10)]
     getInitialInvoiceState"
    by (simp add: getInitialInvoiceState_def item_ids_def handleAddItem_def
        handleItemChange_def handleRemoveItem_def)
  from adm item_ids_distinct_invariant [OF adm, of 4] show ?thesis by blast
qed

text \<open>
  Claim C8 as stated fails: two items added in the same millisecond have the same id.
\<close>

theorem item_ids_distinct_counterexample:
  "\<not> distinct (item_ids (handleAddItem 1700000000000
                            (handleAddItem 1700000000000 getInitialInvoiceState)))"
  by (simp add: handleAddItem_def getInitialInvoiceState_def item_ids_def)

section \<open>The export guard\<close>

text \<open>
  \<^verbatim>\<open>trim\<close> gives the empty string exactly on the strings of white space.
\<close>

lemma trim_empty_iff: "trim s = '''' \<longleftrightarrow> (\<forall>c\<in>set s. isWhiteSpace c)"
proof
  assume "trim s = ''''"
  then have "dropWhile isWhiteSpace (rev (dropWhile isWhiteSpace s)) = []"
    by (simp add: trim_def)
  then have all: "\<forall>c\<in>set (dropWhile isWhiteSpace s). isWhiteSpace c"
    by (simp add: dropWhile_eq_Nil_conv)
  have "dropWhile isWhiteSpace s = []"
  proof (rule ccontr)
    assume ne: "dropWhile isWhiteSpace s \<noteq> []"
    then have "\<not> isWhiteSpace (hd (dropWhile isWhiteSpace s))"
      by (rule hd_dropWhile)
    moreover from ne have "hd (dropWhile isWhiteSpace s) \<in> set (dropWhile isWhiteSpace s)"
      by simp
    ultimately show False using all by blast
  qed
  then show "\<forall>c\<in>set s. isWhiteSpace c"
    by (simp add: dropWhile_eq_Nil_conv)
next
  assume "\<forall>c\<in>set s. isWhiteSpace c"
  then show "trim s = ''''"
    by (auto simp: trim_def dest: set_dropWhileD)
qed

text \<open>
  Claim C7. When the invoice number is empty or white space only, \<^verbatim>\<open>handleDownloadPdf\<close>
  sets the error notice \<^verbatim>\<open>Invoice number cannot be empty.\<close> and does nothing else: the
  invoice and the downloading flag are unchanged, \<^verbatim>\<open>generatePdfBlob\<close> is not called and no
  file is downloaded.
\<close>

theorem export_rejected_without_invoice_number:
  assumes "\<forall>c\<in>set (invoiceNumber (invoice app)). isWhiteSpace c"
  shows "handleDownloadPdf outcome app
           = (app\<lparr>feedback := Some \<lparr> message = ''Invoice number cannot be empty.'',
                                      feedbackType = error \<rparr>\<rparr>,
              [SetTimeout_clearFeedback 3000])
         \<and> invoice (fst (handleDownloadPdf outcome app)) = invoice app
         \<and> isDownloading (fst (handleDownloadPdf outcome app)) = isDownloading app
         \<and> Call_generatePdfBlob \<notin> set (snd (handleDownloadPdf outcome app))
         \<and> (\<forall>file blob. Download file blob \<notin> set (snd (handleDownloadPdf outcome app)))"
proof -
  from assms have "trim (invoiceNumber (invoice app)) = ''''"
    by (simp add: trim_empty_iff)
  then have run: "handleDownloadPdf outcome app
           = (app\<lparr>feedback := Some \<lparr> message = ''Invoice number cannot be empty.'',
                                      feedbackType = error \<rparr>\<rparr>,
              [SetTimeout_clearFeedback 3000])"
    by (simp add: handleDownloadPdf_def showFeedback_def)
  then show ?thesis by simp
qed

theorem export_rejected_without_invoice_number_witness:
  "(trim ''  '' = '''')
   \<and> handleDownloadPdf (PdfBlob ''%PDF'')
        \<lparr> invoice = getInitialInvoiceState\<lparr>invoiceNumber := ''  ''\<rparr>, isDownloading = False,
          feedback = None \<rparr>
      = (\<lparr> invoice = getInitialInvoiceState\<lparr>invoiceNumber := ''  ''\<rparr>, isDownloading = False,
           feedback = Some \<lparr> message = ''Invoice number cannot be empty.'',
                             feedbackType = error \<rparr> \<rparr>,
         [SetTimeout_clearFeedback 3000])"
  using export_rejected_without_invoice_number
    [of "\<lparr> invoice = getInitialInvoiceState\<lparr>invoiceNumber := ''  ''\<rparr>, isDownloading = False,
          feedback = None \<rparr>" "PdfBlob ''%PDF''"]
  by (simp add: isWhiteSpace_def trim_def)

text \<open>
  With an invoice number the export runs, and the file name is built from the type and
  the number.
\<close>

lemma export_accepted_example:
  "handleDownloadPdf (PdfBlob ''%PDF'')
        \<lparr> invoice = getInitialInvoiceState\<lparr>invoiceNumber := ''INV-7'', invoiceType := Tax_Invoice_T\<rparr>,
          isDownloading = False, feedback = None \<rparr>
      = (\<lparr> invoice = getInitialInvoiceState\<lparr>invoiceNumber := ''INV-7'', invoiceType := Tax_Invoice_T\<rparr>,
           isDownloading = False, feedback = None \<rparr>,
         [Call_generatePdfBlob, Download ''tax-invoice-INV-7.pdf'' ''%PDF''])"
  by (simp add: handleDownloadPdf_def generatePdfBlob_def trim_def isWhiteSpace_def
      toLowerCase_def)

section \<open>Loading the draft\<close>

text \<open>
  Towards claim C3: the name \<^verbatim>\<open>themeColor\<close> is no index of an array or of a string, so
  reading \<^verbatim>\<open>parsed.themeColor\<close> is looking it up among the own properties.
\<close>

lemma decimalString_digits: "set (decimalString n) \<subseteq> set ''0123456789''"
proof (induction n rule: decimalString.induct)
  case (1 n)
  have digit: "''0123456789'' ! k \<in> set ''0123456789''" if "k < 10" for k
    using that by (intro nth_mem) simp
  show ?case
  proof (cases "n < 10")
    case True
    with digit [of n] show ?thesis
      by (subst decimalString.simps) simp
  next
    case False
    with 1 digit [of "n mod 10"] show ?thesis
      by (subst decimalString.simps) simp
  qed
qed

lemma themeColor_no_index: "''themeColor'' \<notin> set (map decimalString ks)"
proof
  assume "''themeColor'' \<in> set (map decimalString ks)"
  then obtain k where "decimalString k = ''themeColor''" by auto
  with decimalString_digits [of k] show False by auto
qed

lemma themeColor_not_indexed:
  assumes "length ks = length vs"
  shows "map_of (zip (map decimalString ks) vs) ''themeColor'' = None"
  using assms themeColor_no_index [of ks] by (simp add: map_of_zip_is_None)

lemma get_themeColor_own:
  "parsed \<noteq> JNull
   \<Longrightarrow> get_themeColor parsed = Inr (map_of (ownProperties parsed) ''themeColor'')"
  by (cases parsed) (simp_all add: themeColor_not_indexed)

lemma defaults_themeColor:
  "map_of (properties getInitialInvoiceState) ''themeColor'' = Some (JString DEFAULT_THEME_COLOR)"
  by (simp add: properties_def getInitialInvoiceState_def)

lemma loadInitialState_parsed:
  assumes "s \<noteq> ''''" and "JSON_parse s = Some parsed"
  shows "loadInitialState JSON_parse (Some s)
           = (map_of (properties getInitialInvoiceState) ++ map_of (ownProperties parsed))
               (''themeColor'' \<mapsto>
                  logical_or (map_of (ownProperties parsed) ''themeColor'')
                    (JString DEFAULT_THEME_COLOR))"
proof (cases "parsed = JNull")
  case True
  have "(map_of (properties getInitialInvoiceState))(''themeColor'' \<mapsto> JString DEFAULT_THEME_COLOR)
          = map_of (properties getInitialInvoiceState)"
    using defaults_themeColor by (rule map_upd_triv)
  with True assms show ?thesis
    by (simp add: loadInitialState_def parse_and_merge_def Let_def logical_or_def)
next
  case False
  from get_themeColor_own [OF this] assms show ?thesis
    by (simp add: loadInitialState_def parse_and_merge_def Let_def)
qed

text \<open>
  Claim C3, as amended. With no stored draft, with the empty string stored, or with a
  stored draft that does not parse, the loaded state is the defaults (no exception leaves
  \<^verbatim>\<open>loadInitialState\<close>, which is total). When the draft parses, the loaded state is the
  shallow merge of the parsed properties over the defaults, with \<^verbatim>\<open>themeColor\<close> set to the
  default theme colour whenever the parsed one is missing or falsy (the empty string,
  \<^verbatim>\<open>null\<close>, \<^verbatim>\<open>false\<close> or \<^verbatim>\<open>0\<close>), and to the parsed one otherwise.
\<close>

theorem loadInitialState_amended:
  fixes JSON_parse :: "string \<Rightarrow> json option"
  defines "defaults \<equiv> map_of (properties getInitialInvoiceState)"
  shows "loadInitialState JSON_parse None = defaults
     \<and> loadInitialState JSON_parse (Some '''') = defaults
     \<and> (JSON_parse s = None \<longrightarrow> loadInitialState JSON_parse (Some s) = defaults)
     \<and> (s \<noteq> '''' \<and> JSON_parse s = Some parsed \<longrightarrow>
          loadInitialState JSON_parse (Some s)
            = (defaults ++ map_of (ownProperties parsed))
                (''themeColor'' \<mapsto>
                   (case map_of (ownProperties parsed) ''themeColor'' of
                      None \<Rightarrow> JString DEFAULT_THEME_COLOR
                    | Some tc \<Rightarrow> if truthy tc then tc else JString DEFAULT_THEME_COLOR)))"
proof -
  have absent: "loadInitialState JSON_parse None = defaults"
    and empty: "loadInitialState JSON_parse (Some '''') = defaults"
    by (simp_all add: loadInitialState_def defaults_def)
  have corrupt: "loadInitialState JSON_parse (Some s) = defaults" if "JSON_parse s = None"
    using that by (simp add: loadInitialState_def parse_and_merge_def defaults_def Let_def)
  have merged: "loadInitialState JSON_parse (Some s)
            = (defaults ++ map_of (ownProperties parsed))
                (''themeColor'' \<mapsto>
                   (case map_of (ownProperties parsed) ''themeColor'' of
                      None \<Rightarrow> JString DEFAULT_THEME_COLOR
                    | Some tc \<Rightarrow> if truthy tc then tc else JString DEFAULT_THEME_COLOR))"
    if s: "s \<noteq> ''''" "JSON_parse s = Some parsed"
    using loadInitialState_parsed [of s JSON_parse parsed, OF s]
    by (simp add: defaults_def logical_or_def)
  from absent empty corrupt merged show ?thesis by blast
qed

theorem loadInitialState_amended_witness:
  "parses_only ''{}'' (JObject []) ''not json'' = None
   \<and> loadInitialState (parses_only ''{}'' (JObject [])) (Some ''not json'')
       = map_of (properties getInitialInvoiceState)
   \<and> ''{}'' \<noteq> '''' \<and> parses_only ''{}'' (JObject []) ''{}'' = Some (JObject [])
   \<and> loadInitialState (parses_only ''{}'' (JObject [])) (Some ''{}'')
       = (map_of (properties getInitialInvoiceState))
           (''themeColor'' \<mapsto> JString DEFAULT_THEME_COLOR)"
  using loadInitialState_amended [of "parses_only ''{}'' (JObject [])" "''not json''"]
    loadInitialState_amended [of "parses_only ''{}'' (JObject [])" "''{}''" "JObject []"]
  by (simp add: parses_only_def)

text \<open>
  Claim C3 as stated fails on a draft whose theme colour is neither missing nor empty but
  falsy: for the stored object whose only member is \<^verbatim>\<open>themeColor\<close> with the value \<open>0\<close>,
  the code loads the default theme colour, where the merge of the claim keeps \<open>0\<close>.
\<close>

theorem loadInitialState_falsy_theme_counterexample:
  "loadInitialState (parses_only stored_zero_theme (JObject [(''themeColor'', JNumber 0)]))
       (Some stored_zero_theme) ''themeColor''
     = Some (JString DEFAULT_THEME_COLOR)
   \<and> spec_load (JObject [(''themeColor'', JNumber 0)]) ''themeColor'' = Some (JNumber 0)
   \<and> loadInitialState (parses_only stored_zero_theme (JObject [(''themeColor'', JNumber 0)]))
       (Some stored_zero_theme)
     \<noteq> spec_load (JObject [(''themeColor'', JNumber 0)])"
proof -
  have code: "loadInitialState (parses_only stored_zero_theme (JObject [(''themeColor'', JNumber 0)]))
       (Some stored_zero_theme) ''themeColor''
     = Some (JString DEFAULT_THEME_COLOR)"
    by (simp add: loadInitialState_def parse_and_merge_def parses_only_def logical_or_def
        stored_zero_theme_def)
  have spec: "spec_load (JObject [(''themeColor'', JNumber 0)]) ''themeColor'' = Some (JNumber 0)"
    by (simp add: spec_load_def)
  have "loadInitialState (parses_only stored_zero_theme (JObject [(''themeColor'', JNumber 0)]))
       (Some stored_zero_theme) \<noteq> spec_load (JObject [(''themeColor'', JNumber 0)])"
  proof
    assume "loadInitialState (parses_only stored_zero_theme (JObject [(''themeColor'', JNumber 0)]))
       (Some stored_zero_theme) = spec_load (JObject [(''themeColor'', JNumber 0)])"
    then have "loadInitialState (parses_only stored_zero_theme (JObject [(''themeColor'', JNumber 0)]))
       (Some stored_zero_theme) ''themeColor''
       = spec_load (JObject [(''themeColor'', JNumber 0)]) ''themeColor''"
      by simp
    with code spec show False by simp
  qed
  with code spec show ?thesis by blast
qed

text \<open>
  On the drafts the application writes itself, where the theme colour is a string (or,
  in an older shape, missing), the code loads the merge of the specification.
\<close>

lemma loadInitialState_well_typed_theme:
  assumes "s \<noteq> ''''" and "JSON_parse s = Some parsed"
    and "map_of (ownProperties parsed) ''themeColor'' = None
         \<or> map_of (ownProperties parsed) ''themeColor'' = Some (JString c)"
  shows "loadInitialState JSON_parse (Some s) = spec_load parsed"
proof -
  let ?merged = "map_of (properties getInitialInvoiceState) ++ map_of (ownProperties parsed)"
  note load = loadInitialState_parsed [of s JSON_parse parsed, OF assms(1,2)]
  from assms(3) show ?thesis
  proof
    assume "map_of (ownProperties parsed) ''themeColor'' = None"
    then show ?thesis
      by (simp add: load spec_load_def logical_or_def)
  next
    assume tc: "map_of (ownProperties parsed) ''themeColor'' = Some (JString c)"
    then have "?merged ''themeColor'' = Some (JString c)"
      by (simp add: map_add_Some_iff)
    then have "?merged(''themeColor'' \<mapsto> JString c) = ?merged"
      by (rule map_upd_triv)
    with tc show ?thesis
      by (simp add: load spec_load_def logical_or_def)
  qed
qed

end
